theory Spec2Isabelle
  imports Complex_Main "HOL-Library.Word"
begin

section \<open>Data model of App.tsx\<close>

text \<open>
  The five string literals of the union type \<open>ImageFormat\<close> (line 5). \<open>mime\<close> gives the
  literal itself, which the download link splits at the slash.
\<close>

datatype ImageFormat = image_jpeg | image_png | image_webp | image_gif | image_bmp

fun mime :: "ImageFormat \<Rightarrow> string" where
  "mime image_jpeg = ''image/jpeg''"
| "mime image_png = ''image/png''"
| "mime image_webp = ''image/webp''"
| "mime image_gif = ''image/gif''"
| "mime image_bmp = ''image/bmp''"

text \<open>The interface \<open>ConversionResult\<close> (lines 7 to 10): two fields and no other.\<close>

record ConversionResult =
  url :: string
  format :: ImageFormat

type_synonym byte = "8 word"

text \<open>
  A browser \<open>Blob\<close> is a media type and bytes; a \<open>File\<close> is a blob with a name. The
  component never reads the name or the type of the selected file: it only hands the
  file to \<open>URL.createObjectURL\<close>.
\<close>

record blob =
  blobType :: string
  blobBytes :: "byte list"

record File =
  fileName :: string
  fileType :: string
  fileBytes :: "byte list"

definition file_blob :: "File \<Rightarrow> blob" where
  "file_blob f = \<lparr>blobType = fileType f, blobBytes = fileBytes f\<rparr>"

record rgba =
  red :: byte
  green :: byte
  blue :: byte
  alpha :: byte

text \<open>
  A loaded \<open>Image\<close> element and a canvas: the two dimensions the code reads and writes
  (lines 49 and 50) and the bitmap, a pixel for each coordinate.
\<close>

record image =
  imgWidth :: nat
  imgHeight :: nat
  imgPixel :: "nat \<Rightarrow> nat \<Rightarrow> rgba"

record canvas =
  canvasWidth :: nat
  canvasHeight :: nat
  canvasPixel :: "nat \<Rightarrow> nat \<Rightarrow> rgba"

section \<open>The browser\<close>

text \<open>
  The decoder and the encoder are the browser's, not the repository's; they are
  parameters of the model. The causes for which they can refuse are named as in the
  specification's error taxonomy. The component never sees a cause: a failed load fires
  \<open>image.onerror\<close> with an \<open>error\<close> event, a failed encoding calls the \<open>toBlob\<close> callback
  with \<open>null\<close>.

  \<open>encodeCanvas\<close> has the three inputs of \<open>canvas.toBlob(callback, type, quality)\<close>
  besides the callback: the canvas, the type and the optional quality.
  \<open>context2d\<close> tells whether \<open>canvas.getContext('2d')\<close> returns a context.
  \<open>freshURL n\<close> is the object URL the browser hands out when \<open>n\<close> are registered.
\<close>

datatype DecodeError = Malformed | UnsupportedCodec | DimensionOverflow

datatype EncodeError = RasterTooLarge | EncodingFailed

record platform =
  decodeImage :: "blob \<Rightarrow> DecodeError + image"
  context2d :: bool
  encodeCanvas :: "canvas \<Rightarrow> ImageFormat \<Rightarrow> rat option \<Rightarrow> EncodeError + blob"
  freshURL :: "nat \<Rightarrow> string"

text \<open>A DOM event, with its type; the only value the code ever catches.\<close>

datatype event = Event string

text \<open>The three states of a JavaScript promise.\<close>

datatype 'a promise = Pending | Fulfilled 'a | Rejected event

section \<open>State of the component\<close>

text \<open>
  The five \<open>useState\<close> cells of \<open>App\<close> (lines 13 to 17), and the two pieces of browser
  state \<open>convertImage\<close> writes: the object URL registry and the error console.
\<close>

record app_state =
  isDarkMode :: bool
  isConverting :: bool
  selectedFile :: "File option"
  convertedImage :: "ConversionResult option"
  targetFormat :: ImageFormat
  objectURLs :: "(string \<times> blob) list"
  console :: "(string \<times> event) list"

definition initial_state :: app_state where
  "initial_state =
     \<lparr>isDarkMode = False, isConverting = False, selectedFile = None,
      convertedImage = None, targetFormat = image_png, objectURLs = [], console = []\<rparr>"

definition setTargetFormat :: "ImageFormat \<Rightarrow> app_state \<Rightarrow> app_state" where
  "setTargetFormat fmt st = st\<lparr>targetFormat := fmt\<rparr>"

text \<open>\<open>onDrop\<close> (lines 19 to 24).\<close>

definition onDrop :: "File list \<Rightarrow> app_state \<Rightarrow> app_state" where
  "onDrop acceptedFiles st =
     (if length acceptedFiles > 0
      then st\<lparr>selectedFile := Some (acceptedFiles ! 0), convertedImage := None\<rparr>
      else st)"

text \<open>The options object given to \<open>useDropzone\<close> (lines 26 to 32), without the callback.\<close>

record dropzone_options =
  accept :: "(string \<times> string list) list"
  multiple :: bool

definition dropzoneOptions :: dropzone_options where
  "dropzoneOptions =
     \<lparr>accept = [(''image/*'', [''.png'', ''.jpg'', ''.jpeg'', ''.gif'', ''.bmp'', ''.webp''])],
      multiple = False\<rparr>"

text \<open>
  Which files the drop zone accepts is decided by the react-dropzone library, which is
  not part of the repository; the rule is written here after the library. The options'
  \<open>accept\<close> object is flattened into one list of patterns, each key followed by its
  extensions (\<open>acceptAttr\<close>). A file is accepted when the list is empty or some pattern
  matches it (\<open>accepts\<close>): a pattern that starts with a dot matches a file whose name
  ends with it, a pattern that ends with \<open>/*\<close> matches a file whose type has the same
  part before the slash, any other pattern matches a file of exactly that type; all
  comparisons are made in lower case. A file of type \<open>application/x-moz-file\<close> is
  always accepted (\<open>fileAccepted\<close>).
\<close>

definition toLowerCase :: "string \<Rightarrow> string" where
  "toLowerCase s =
     map (\<lambda>c. case map_of (zip ''ABCDEFGHIJKLMNOPQRSTUVWXYZ'' ''abcdefghijklmnopqrstuvwxyz'') c of
                None \<Rightarrow> c | Some l \<Rightarrow> l) s"

definition endsWith :: "string \<Rightarrow> string \<Rightarrow> bool" where
  "endsWith s suf = (length suf \<le> length s \<and> drop (length s - length suf) s = suf)"

definition baseType :: "string \<Rightarrow> string" where
  "baseType t = takeWhile (\<lambda>c. c \<noteq> CHR ''/'') t"

definition acceptAttr :: "dropzone_options \<Rightarrow> string list" where
  "acceptAttr opts = concat (map (\<lambda>(mimeType, exts). mimeType # exts) (accept opts))"

definition accepts :: "File \<Rightarrow> string list \<Rightarrow> bool" where
  "accepts f acceptedFiles =
     (acceptedFiles = [] \<or>
      list_ex (\<lambda>t. let validType = toLowerCase t
                   in if take 1 validType = ''.'' then endsWith (toLowerCase (fileName f)) validType
                      else if endsWith validType ''/*''
                           then baseType (toLowerCase (fileType f)) = baseType validType
                      else toLowerCase (fileType f) = validType)
        acceptedFiles)"

definition fileAccepted :: "dropzone_options \<Rightarrow> File \<Rightarrow> bool" where
  "fileAccepted opts f = (fileType f = ''application/x-moz-file'' \<or> accepts f (acceptAttr opts))"

section \<open>convertImage\<close>

text \<open>\<open>URL.createObjectURL\<close>: registers the blob and returns its new URL.\<close>

definition createObjectURL :: "platform \<Rightarrow> blob \<Rightarrow> app_state \<Rightarrow> string \<times> app_state" where
  "createObjectURL p b st =
     (let u = freshURL p (length (objectURLs st))
      in (u, st\<lparr>objectURLs := (u, b) # objectURLs st\<rparr>))"

text \<open>
  The promise of lines 43 to 47, once \<open>image.src\<close> is set: \<open>onload\<close> resolves it,
  \<open>onerror\<close> rejects it with the \<open>error\<close> event.
\<close>

definition imageLoad :: "platform \<Rightarrow> string \<Rightarrow> app_state \<Rightarrow> image promise" where
  "imageLoad p src st =
     (case map_of (objectURLs st) src of
        None \<Rightarrow> Rejected (Event ''error'')
      | Some b \<Rightarrow>
          (case decodeImage p b of
             Inl cause \<Rightarrow> Rejected (Event ''error'')
           | Inr img \<Rightarrow> Fulfilled img))"

definition transparent_black :: rgba where
  "transparent_black = \<lparr>red = 0, green = 0, blue = 0, alpha = 0\<rparr>"

text \<open>A new canvas element is 300 by 150; setting a dimension clears the bitmap.\<close>

definition createCanvas :: canvas where
  "createCanvas = \<lparr>canvasWidth = 300, canvasHeight = 150, canvasPixel = (\<lambda>x y. transparent_black)\<rparr>"

definition setCanvasSize :: "nat \<Rightarrow> nat \<Rightarrow> canvas \<Rightarrow> canvas" where
  "setCanvasSize w h c =
     \<lparr>canvasWidth = w, canvasHeight = h, canvasPixel = (\<lambda>x y. transparent_black)\<rparr>"

text \<open>\<open>drawImage(image, 0, 0)\<close> on a cleared canvas: the image's pixels, from the origin.\<close>

definition drawImage :: "image \<Rightarrow> canvas \<Rightarrow> canvas" where
  "drawImage img c =
     c\<lparr>canvasPixel :=
         (\<lambda>x y. if x < imgWidth img \<and> y < imgHeight img then imgPixel img x y
                else canvasPixel c x y)\<rparr>"

text \<open>
  The canvas of lines 40, 41 and 49 to 51: sized as the image, then painted with it.
  \<open>ctx?.drawImage\<close> paints nothing when there is no context, and the canvas stays clear.
\<close>

definition paintedCanvas :: "platform \<Rightarrow> image \<Rightarrow> canvas" where
  "paintedCanvas p img =
     (let c0 = setCanvasSize (imgWidth img) (imgHeight img) createCanvas
      in if context2d p then drawImage img c0 else c0)"

text \<open>
  The promise of lines 53 to 57. \<open>toBlob\<close> gets the callback and the type, no quality.
  The callback resolves the promise when the blob is not \<open>null\<close> and does nothing
  otherwise, and the executor has no \<open>reject\<close>: on \<open>null\<close> the promise stays pending.
\<close>

definition toBlobPromise :: "platform \<Rightarrow> canvas \<Rightarrow> ImageFormat \<Rightarrow> blob promise" where
  "toBlobPromise p c fmt =
     (case encodeCanvas p c fmt None of
        Inl cause \<Rightarrow> Pending
      | Inr b \<Rightarrow> Fulfilled b)"

text \<open>
  The \<open>try\<close> block (lines 39 to 62). An \<open>await\<close> of a pending promise suspends the
  function for good; an \<open>await\<close> of a rejected one throws.
\<close>

definition tryBlock :: "platform \<Rightarrow> File \<Rightarrow> ImageFormat \<Rightarrow> app_state \<Rightarrow> unit promise \<times> app_state" where
  "tryBlock p f fmt st =
     (let (src, st1) = createObjectURL p (file_blob f) st
      in case imageLoad p src st1 of
           Pending \<Rightarrow> (Pending, st1)
         | Rejected e \<Rightarrow> (Rejected e, st1)
         | Fulfilled img \<Rightarrow>
             (case toBlobPromise p (paintedCanvas p img) fmt of
                Pending \<Rightarrow> (Pending, st1)
              | Rejected e \<Rightarrow> (Rejected e, st1)
              | Fulfilled b \<Rightarrow>
                  (let (u, st2) = createObjectURL p b st1
                   in (Fulfilled (),
                       st2\<lparr>convertedImage := Some \<lparr>url = u, format = fmt\<rparr>\<rparr>))))"

text \<open>
  \<open>catch\<close> and \<open>finally\<close> (lines 63 to 67): a thrown value is logged and swallowed, and
  the flag is cleared on both ways out. A suspended \<open>try\<close> block reaches neither.
\<close>

fun catchFinally :: "unit promise \<times> app_state \<Rightarrow> unit promise \<times> app_state" where
  "catchFinally (Rejected e, st) =
     (Fulfilled (),
      st\<lparr>console := console st @ [(''Error converting image:'', e)], isConverting := False\<rparr>)"
| "catchFinally (Fulfilled u, st) = (Fulfilled u, st\<lparr>isConverting := False\<rparr>)"
| "catchFinally (Pending, st) = (Pending, st)"

text \<open>
  \<open>convertImage\<close> (lines 34 to 68): the promise the async function returns and the state
  it leaves.
\<close>

definition convertImage :: "platform \<Rightarrow> app_state \<Rightarrow> unit promise \<times> app_state" where
  "convertImage p st =
     (case selectedFile st of
        None \<Rightarrow> (Fulfilled (), st)
      | Some f \<Rightarrow> catchFinally (tryBlock p f (targetFormat st) (st\<lparr>isConverting := True\<rparr>)))"

section \<open>The download link\<close>

text \<open>\<open>String.prototype.split\<close> with a one-character separator.\<close>

fun split :: "char \<Rightarrow> string \<Rightarrow> string list" where
  "split sep [] = [[]]"
| "split sep (c # cs) =
     (if c = sep then [] # split sep cs
      else (case split sep cs of
              [] \<Rightarrow> [[c]]
            | w # ws \<Rightarrow> (c # w) # ws))"

text \<open>An index out of range reads \<open>undefined\<close>, which a template literal prints so.\<close>

definition interpolate_at :: "string list \<Rightarrow> nat \<Rightarrow> string" where
  "interpolate_at parts i = (if i < length parts then parts ! i else ''undefined'')"

text \<open>
  The \<open>download\<close> attribute of the link (line 156), rendered when \<open>convertedImage\<close> is set
  (line 147).
\<close>

definition downloadName :: "app_state \<Rightarrow> string option" where
  "downloadName st =
     (case convertedImage st of
        None \<Rightarrow> None
      | Some r \<Rightarrow> Some (''converted.'' @ interpolate_at (split CHR ''/'' (mime (targetFormat st))) 1))"

section \<open>Example browsers and inputs\<close>

definition opaque_white :: rgba where
  "opaque_white = \<lparr>red = 255, green = 255, blue = 255, alpha = 255\<rparr>"

definition png_file :: File where
  "png_file = \<lparr>fileName = ''a.png'', fileType = ''image/png'', fileBytes = [137, 80, 78, 71]\<rparr>"

definition white_image :: image where
  "white_image = \<lparr>imgWidth = 2, imgHeight = 1, imgPixel = (\<lambda>x y. opaque_white)\<rparr>"

definition translucent_image :: image where
  "translucent_image =
     \<lparr>imgWidth = 2, imgHeight = 1,
      imgPixel = (\<lambda>x y. \<lparr>red = 255, green = 0, blue = 0, alpha = 128\<rparr>)\<rparr>"

definition huge_image :: image where
  "huge_image = \<lparr>imgWidth = 100000, imgHeight = 100000, imgPixel = (\<lambda>x y. opaque_white)\<rparr>"

definition url_of_nat :: "nat \<Rightarrow> string" where
  "url_of_nat n = ''blob:'' @ replicate n CHR ''i''"

text \<open>A browser that decodes every file to a white image 2 by 1 and encodes any canvas.\<close>

definition browser_ok :: platform where
  "browser_ok =
     \<lparr>decodeImage = (\<lambda>b. Inr white_image),
      context2d = True,
      encodeCanvas = (\<lambda>c fmt q. Inr \<lparr>blobType = mime fmt, blobBytes = [1]\<rparr>),
      freshURL = url_of_nat\<rparr>"

text \<open>The same browser, decoding every file to a given image, or refusing every file.\<close>

definition browser_showing :: "image \<Rightarrow> platform" where
  "browser_showing img = browser_ok\<lparr>decodeImage := (\<lambda>b. Inr img)\<rparr>"

definition browser_refusing :: "DecodeError \<Rightarrow> platform" where
  "browser_refusing cause = browser_ok\<lparr>decodeImage := (\<lambda>b. Inl cause)\<rparr>"

text \<open>A browser whose encoder always fails: \<open>toBlob\<close> calls back with \<open>null\<close>.\<close>

definition browser_null :: platform where
  "browser_null = browser_ok\<lparr>encodeCanvas := (\<lambda>c fmt q. Inl EncodingFailed)\<rparr>"

text \<open>
  A browser whose encoder writes the quality it is given, in percent, into the blob, and
  nothing when it is given none.
\<close>

definition browser_spy :: platform where
  "browser_spy =
     browser_ok\<lparr>encodeCanvas :=
       (\<lambda>c fmt q. Inr \<lparr>blobType = mime fmt,
                        blobBytes = (case q of None \<Rightarrow> [] | Some r \<Rightarrow> [of_int \<lfloor>r * 100\<rfloor>])\<rparr>)\<rparr>"





text \<open>An SVG drawing, as a browser reports it.\<close>

definition svg_file :: File where
  "svg_file = \<lparr>fileName = ''a.svg'', fileType = ''image/svg+xml'', fileBytes = [60, 115, 118, 103]\<rparr>"

text \<open>The state after a file is dropped, and the same with JPEG picked as the target.\<close>

definition selected_state :: app_state where
  "selected_state = onDrop [png_file] initial_state"

definition jpeg_state :: app_state where
  "jpeg_state = setTargetFormat image_jpeg selected_state"

section \<open>What convertImage computes\<close>

lemma selected_state_simps:
  "selectedFile selected_state = Some png_file"
  "targetFormat selected_state = image_png"
  "convertedImage selected_state = None"
  "objectURLs selected_state = []"
  "console selected_state = []"
  "isConverting selected_state = False"
  by (simp_all add: selected_state_def onDrop_def initial_state_def)

lemma jpeg_state_simps:
  "selectedFile jpeg_state = Some png_file"
  "targetFormat jpeg_state = image_jpeg"
  "convertedImage jpeg_state = None"
  "objectURLs jpeg_state = []"
  "console jpeg_state = []"
  "isConverting jpeg_state = False"
  by (simp_all add: jpeg_state_def setTargetFormat_def selected_state_simps)

lemma paintedCanvas_dims:
  "canvasWidth (paintedCanvas p img) = imgWidth img"
  "canvasHeight (paintedCanvas p img) = imgHeight img"
  by (simp_all add: paintedCanvas_def setCanvasSize_def drawImage_def Let_def)


lemma extension_of_format:
  "interpolate_at (split CHR ''/'' (mime fmt)) 1 =
     (case fmt of image_jpeg \<Rightarrow> ''jpeg'' | image_png \<Rightarrow> ''png'' | image_webp \<Rightarrow> ''webp''
      | image_gif \<Rightarrow> ''gif'' | image_bmp \<Rightarrow> ''bmp'')"
  by (cases fmt) (simp_all add: interpolate_at_def)

text \<open>The three ways through the \<open>try\<close> block, and through \<open>convertImage\<close>.\<close>

lemma tryBlock_decode_fails:
  assumes "decodeImage p (file_blob f) = Inl cause"
  shows "tryBlock p f fmt st =
     (Rejected (Event ''error''),
      st\<lparr>objectURLs := (freshURL p (length (objectURLs st)), file_blob f) # objectURLs st\<rparr>)"
  using assms by (simp add: tryBlock_def imageLoad_def createObjectURL_def Let_def)

lemma tryBlock_encode_null:
  assumes "decodeImage p (file_blob f) = Inr img"
    and "encodeCanvas p (paintedCanvas p img) fmt None = Inl cause"
  shows "tryBlock p f fmt st =
     (Pending,
      st\<lparr>objectURLs := (freshURL p (length (objectURLs st)), file_blob f) # objectURLs st\<rparr>)"
  using assms
  by (simp add: tryBlock_def imageLoad_def toBlobPromise_def createObjectURL_def Let_def)

lemma tryBlock_encoded:
  assumes "decodeImage p (file_blob f) = Inr img"
    and "encodeCanvas p (paintedCanvas p img) fmt None = Inr b"
  shows "tryBlock p f fmt st =
     (Fulfilled (),
      st\<lparr>objectURLs := (freshURL p (Suc (length (objectURLs st))), b)
                        # (freshURL p (length (objectURLs st)), file_blob f) # objectURLs st,
         convertedImage := Some \<lparr>url = freshURL p (Suc (length (objectURLs st))), format = fmt\<rparr>\<rparr>)"
  using assms
  by (simp add: tryBlock_def imageLoad_def toBlobPromise_def createObjectURL_def Let_def)

lemma convertImage_decode_fails:
  assumes "selectedFile st = Some f" and "decodeImage p (file_blob f) = Inl cause"
  shows "convertImage p st =
     (Fulfilled (),
      st\<lparr>objectURLs := (freshURL p (length (objectURLs st)), file_blob f) # objectURLs st,
         console := console st @ [(''Error converting image:'', Event ''error'')],
         isConverting := False\<rparr>)"
  using assms by (simp add: convertImage_def tryBlock_decode_fails [where cause = cause])

lemma convertImage_encode_null:
  assumes "selectedFile st = Some f" and "decodeImage p (file_blob f) = Inr img"
    and "encodeCanvas p (paintedCanvas p img) (targetFormat st) None = Inl cause"
  shows "convertImage p st =
     (Pending,
      st\<lparr>isConverting := True,
         objectURLs := (freshURL p (length (objectURLs st)), file_blob f) # objectURLs st\<rparr>)"
  using assms
  by (simp add: convertImage_def tryBlock_encode_null [where cause = cause and img = img])

lemma convertImage_encoded:
  assumes "selectedFile st = Some f" and "decodeImage p (file_blob f) = Inr img"
    and "encodeCanvas p (paintedCanvas p img) (targetFormat st) None = Inr b"
  shows "convertImage p st =
     (Fulfilled (),
      st\<lparr>objectURLs := (freshURL p (Suc (length (objectURLs st))), b)
                        # (freshURL p (length (objectURLs st)), file_blob f) # objectURLs st,
         convertedImage := Some \<lparr>url = freshURL p (Suc (length (objectURLs st))),
                                  format = targetFormat st\<rparr>,
         isConverting := False\<rparr>)"
  using assms by (simp add: convertImage_def tryBlock_encoded [where b = b and img = img])

text \<open>
  Right after a successful conversion the name offered for download is the one of the
  format the result is tagged with.
\<close>

lemma downloadName_after_conversion:
  assumes "selectedFile st = Some f" and "decodeImage p (file_blob f) = Inr img"
    and "encodeCanvas p (paintedCanvas p img) (targetFormat st) None = Inr b"
  shows "map_option format (convertedImage (snd (convertImage p st))) = Some (targetFormat st)
    \<and> downloadName (snd (convertImage p st)) =
        Some (''converted.'' @ interpolate_at (split CHR ''/'' (mime (targetFormat st))) 1)"
  by (simp add: convertImage_encoded [OF assms] downloadName_def)

text \<open>The three runs the examples below evaluate.\<close>

lemma convertImage_refusing:
  "convertImage (browser_refusing cause) selected_state =
     (Fulfilled (),
      selected_state\<lparr>objectURLs := [(''blob:'', file_blob png_file)],
                     console := [(''Error converting image:'', Event ''error'')],
                     isConverting := False\<rparr>)"
  using convertImage_decode_fails [of selected_state png_file "browser_refusing cause" cause]
  by (simp add: selected_state_simps browser_refusing_def browser_ok_def url_of_nat_def)

lemma convertImage_showing:
  "convertImage (browser_showing img) selected_state =
     (Fulfilled (),
      selected_state\<lparr>objectURLs := [(''blob:i'', \<lparr>blobType = ''image/png'', blobBytes = [1]\<rparr>),
                                    (''blob:'', file_blob png_file)],
                     convertedImage := Some \<lparr>url = ''blob:i'', format = image_png\<rparr>,
                     isConverting := False\<rparr>)"
  using convertImage_encoded [of selected_state png_file "browser_showing img" img
      "\<lparr>blobType = ''image/png'', blobBytes = [1]\<rparr>"]
  by (simp add: selected_state_simps browser_showing_def browser_ok_def url_of_nat_def)

lemma convertImage_showing_jpeg:
  "convertImage (browser_showing img) jpeg_state =
     (Fulfilled (),
      jpeg_state\<lparr>objectURLs := [(''blob:i'', \<lparr>blobType = ''image/jpeg'', blobBytes = [1]\<rparr>),
                                (''blob:'', file_blob png_file)],
                 convertedImage := Some \<lparr>url = ''blob:i'', format = image_jpeg\<rparr>,
                 isConverting := False\<rparr>)"
  using convertImage_encoded [of jpeg_state png_file "browser_showing img" img
      "\<lparr>blobType = ''image/jpeg'', blobBytes = [1]\<rparr>"]
  by (simp add: jpeg_state_simps browser_showing_def browser_ok_def url_of_nat_def)

section \<open>Failures\<close>

text \<open>
  C1, as the code has it. When the decode stage fails (the browser fires
  \<open>image.onerror\<close>), \<open>convertImage\<close> stops there, whatever the encoder would do: the
  \<open>error\<close> event, which names no error kind, is written to the console and not handed
  to the caller, whose promise is fulfilled as after a success; the converting flag is
  cleared and \<open>convertedImage\<close> is left as it was, so no output is published.
\<close>

theorem decode_failure_logged_not_reported:
  assumes "selectedFile st = Some f" and "decodeImage p (file_blob f) = Inl cause"
  shows "convertImage (p\<lparr>encodeCanvas := enc\<rparr>) st =
     (Fulfilled (),
      st\<lparr>objectURLs := (freshURL p (length (objectURLs st)), file_blob f) # objectURLs st,
         console := console st @ [(''Error converting image:'', Event ''error'')],
         isConverting := False\<rparr>)"
  using assms convertImage_decode_fails [of st f "p\<lparr>encodeCanvas := enc\<rparr>" cause]
  by simp

theorem decode_failure_logged_not_reported_witness:
  "selectedFile selected_state = Some png_file
   \<and> decodeImage (browser_refusing Malformed) (file_blob png_file) = Inl Malformed
   \<and> convertImage ((browser_refusing Malformed)\<lparr>encodeCanvas := (\<lambda>c fmt q. Inl RasterTooLarge)\<rparr>)
        selected_state =
      (Fulfilled (),
       selected_state\<lparr>objectURLs := [(''blob:'', file_blob png_file)],
                      console := [(''Error converting image:'', Event ''error'')],
                      isConverting := False\<rparr>)"
proof -
  have h1: "selectedFile selected_state = Some png_file"
    by (simp add: selected_state_simps)
  have h2: "decodeImage (browser_refusing Malformed) (file_blob png_file) = Inl Malformed"
    by (simp add: browser_refusing_def browser_ok_def)
  from decode_failure_logged_not_reported [OF h1 h2, of "\<lambda>c fmt q. Inl RasterTooLarge"] h1 h2
  show ?thesis
    by (simp add: selected_state_simps browser_refusing_def browser_ok_def url_of_nat_def)
qed

text \<open>
  C1 as stated fails: a file refused as malformed and a file refused for its dimensions
  leave the caller with the same fulfilled promise and the same state, so no error kind
  reaches the caller; and when the encoder fails the promise stays pending, so nothing
  is reported at all.
\<close>

theorem error_kind_reported_counterexample:
  "fst (convertImage (browser_refusing Malformed) selected_state) = Fulfilled ()
   \<and> convertImage (browser_refusing Malformed) selected_state
     = convertImage (browser_refusing DimensionOverflow) selected_state
   \<and> fst (convertImage browser_null selected_state) = Pending"
proof -
  have b: "fst (convertImage browser_null selected_state) = Pending"
    using convertImage_encode_null
      [of selected_state png_file browser_null white_image EncodingFailed]
    by (simp add: selected_state_simps browser_null_def browser_ok_def)
  from convertImage_refusing b show ?thesis by simp
qed

text \<open>
  C5, as the code has it. For a file the browser refuses as malformed, the load promise
  is rejected with the browser's \<open>error\<close> event and never yields an image, and the
  conversion publishes no result: \<open>convertedImage\<close> is what it was and the promise of
  \<open>convertImage\<close> is fulfilled.
\<close>

theorem malformed_input_rejected:
  assumes "selectedFile st = Some f" and "decodeImage p (file_blob f) = Inl Malformed"
  shows "(case createObjectURL p (file_blob f) (st\<lparr>isConverting := True\<rparr>) of
            (src, st1) \<Rightarrow> imageLoad p src st1 = Rejected (Event ''error''))
    \<and> convertedImage (snd (convertImage p st)) = convertedImage st
    \<and> fst (convertImage p st) = Fulfilled ()"
  using assms
  by (simp add: convertImage_decode_fails [OF assms] imageLoad_def createObjectURL_def Let_def)

theorem malformed_input_rejected_witness:
  "selectedFile selected_state = Some png_file
   \<and> decodeImage (browser_refusing Malformed) (file_blob png_file) = Inl Malformed
   \<and> convertedImage (snd (convertImage (browser_refusing Malformed) selected_state)) = None
   \<and> fst (convertImage (browser_refusing Malformed) selected_state) = Fulfilled ()"
proof -
  have h1: "selectedFile selected_state = Some png_file"
    by (simp add: selected_state_simps)
  have h2: "decodeImage (browser_refusing Malformed) (file_blob png_file) = Inl Malformed"
    by (simp add: browser_refusing_def browser_ok_def)
  from malformed_input_rejected [OF h1 h2] h1 h2
  show ?thesis by (simp add: selected_state_simps)
qed

text \<open>
  C5 as stated fails: what the decode stage returns for a malformed file is the \<open>error\<close>
  event, the very value it returns for a file in an unsupported codec; it is no
  \<open>Malformed\<close> error.
\<close>

theorem decode_returns_Malformed_counterexample:
  "imageLoad (browser_refusing Malformed) ''blob:''
      (snd (createObjectURL (browser_refusing Malformed) (file_blob png_file) selected_state))
     = Rejected (Event ''error'')
   \<and> imageLoad (browser_refusing UnsupportedCodec) ''blob:''
      (snd (createObjectURL (browser_refusing UnsupportedCodec) (file_blob png_file) selected_state))
     = Rejected (Event ''error'')"
  by (simp add: imageLoad_def createObjectURL_def Let_def selected_state_simps
      browser_refusing_def browser_ok_def url_of_nat_def)

text \<open>
  C9. When the browser's encoder calls back with \<open>null\<close>, the promise of \<open>convertImage\<close>
  never settles: it stays pending, the converting flag stays set, no result is
  published and nothing is logged.
\<close>

theorem convertImage_null_blob_never_settles:
  assumes "selectedFile st = Some f" and "decodeImage p (file_blob f) = Inr img"
    and "encodeCanvas p (paintedCanvas p img) (targetFormat st) None = Inl cause"
  shows "fst (convertImage p st) = Pending
    \<and> isConverting (snd (convertImage p st))
    \<and> convertedImage (snd (convertImage p st)) = convertedImage st
    \<and> console (snd (convertImage p st)) = console st"
  by (simp add: convertImage_encode_null [OF assms])

theorem convertImage_null_blob_never_settles_witness:
  "selectedFile selected_state = Some png_file
   \<and> decodeImage browser_null (file_blob png_file) = Inr white_image
   \<and> encodeCanvas browser_null (paintedCanvas browser_null white_image)
        (targetFormat selected_state) None = Inl EncodingFailed
   \<and> fst (convertImage browser_null selected_state) = Pending
   \<and> isConverting (snd (convertImage browser_null selected_state))"
proof -
  have h1: "selectedFile selected_state = Some png_file"
    by (simp add: selected_state_simps)
  have h2: "decodeImage browser_null (file_blob png_file) = Inr white_image"
    by (simp add: browser_null_def browser_ok_def)
  have h3: "encodeCanvas browser_null (paintedCanvas browser_null white_image)
        (targetFormat selected_state) None = Inl EncodingFailed"
    by (simp add: browser_null_def browser_ok_def)
  from convertImage_null_blob_never_settles [OF h1 h2 h3] h1 h2 h3
  show ?thesis by simp
qed

text \<open>
  C10. With no file selected, \<open>convertImage\<close> returns at once and changes nothing: the
  promise is fulfilled and the state, the converting flag, the converted result, the
  selected file and the target format included, is the state it was called in.
\<close>

theorem convertImage_without_file:
  assumes "selectedFile st = None"
  shows "convertImage p st = (Fulfilled (), st)"
  using assms by (simp add: convertImage_def)

theorem convertImage_without_file_witness:
  "selectedFile initial_state = None
   \<and> convertImage browser_ok initial_state = (Fulfilled (), initial_state)"
proof -
  have h: "selectedFile initial_state = None" by (simp add: initial_state_def)
  from convertImage_without_file [OF h, of browser_ok] h show ?thesis by simp
qed

section \<open>Results\<close>

text \<open>
  C2, as the code has it. A result carries the object URL of the encoded blob and the
  target format, and nothing else: there are no loss flags, and the result of a
  successful conversion is the same whatever the pixels of the image, their alpha
  included.
\<close>

theorem result_is_url_and_format:
  assumes "selectedFile st = Some f" and "decodeImage p (file_blob f) = Inr img"
    and "encodeCanvas p (paintedCanvas p img) (targetFormat st) None = Inr b"
  shows "convertedImage (snd (convertImage p st)) =
     Some \<lparr>url = freshURL p (Suc (length (objectURLs st))), format = targetFormat st\<rparr>"
  by (simp add: convertImage_encoded [OF assms])

theorem result_is_url_and_format_witness:
  "selectedFile jpeg_state = Some png_file
   \<and> decodeImage (browser_showing translucent_image) (file_blob png_file) = Inr translucent_image
   \<and> encodeCanvas (browser_showing translucent_image)
        (paintedCanvas (browser_showing translucent_image) translucent_image)
        (targetFormat jpeg_state) None = Inr \<lparr>blobType = ''image/jpeg'', blobBytes = [1]\<rparr>
   \<and> convertedImage (snd (convertImage (browser_showing translucent_image) jpeg_state)) =
        Some \<lparr>url = ''blob:i'', format = image_jpeg\<rparr>"
proof -
  have h1: "selectedFile jpeg_state = Some png_file"
    by (simp add: jpeg_state_simps)
  have h2: "decodeImage (browser_showing translucent_image) (file_blob png_file)
      = Inr translucent_image"
    by (simp add: browser_showing_def browser_ok_def)
  have h3: "encodeCanvas (browser_showing translucent_image)
        (paintedCanvas (browser_showing translucent_image) translucent_image)
        (targetFormat jpeg_state) None = Inr \<lparr>blobType = ''image/jpeg'', blobBytes = [1]\<rparr>"
    by (simp add: browser_showing_def browser_ok_def jpeg_state_simps)
  from result_is_url_and_format [OF h1 h2 h3] h1 h2 h3
  show ?thesis
    by (simp add: jpeg_state_simps browser_showing_def browser_ok_def url_of_nat_def)
qed

text \<open>
  C2 as stated fails: converted to JPEG, an image with a pixel of alpha 128 and a fully
  opaque image give the same result, so the result cannot tell that alpha was dropped
  for the one and not for the other.
\<close>

theorem alphaDropped_accurate_counterexample:
  "alpha (imgPixel translucent_image 0 0) < 255
   \<and> alpha (imgPixel white_image 0 0) = 255 \<and> alpha (imgPixel white_image 1 0) = 255
   \<and> convertedImage (snd (convertImage (browser_showing translucent_image) jpeg_state))
       = Some \<lparr>url = ''blob:i'', format = image_jpeg\<rparr>
   \<and> convertedImage (snd (convertImage (browser_showing white_image) jpeg_state))
       = Some \<lparr>url = ''blob:i'', format = image_jpeg\<rparr>"
proof -
  have b: "alpha (imgPixel translucent_image 0 0) < 255"
    by (simp add: translucent_image_def)
  have c: "alpha (imgPixel white_image 0 0) = 255" "alpha (imgPixel white_image 1 0) = 255"
    by (simp_all add: white_image_def opaque_white_def)
  from b c show ?thesis by (simp add: convertImage_showing_jpeg)
qed

text \<open>
  C3, as the code has it. There is no size ceiling: for every image the browser decodes,
  of any width and height, the canvas handed to the encoder has the image's width and
  height, and whether the conversion completes with a result or stays pending depends on
  the encoder's answer alone.
\<close>

theorem no_size_ceiling:
  assumes "selectedFile st = Some f" and "decodeImage p (file_blob f) = Inr img"
  shows "canvasWidth (paintedCanvas p img) = imgWidth img
    \<and> canvasHeight (paintedCanvas p img) = imgHeight img
    \<and> fst (convertImage p st) =
        (case encodeCanvas p (paintedCanvas p img) (targetFormat st) None of
           Inl cause \<Rightarrow> Pending | Inr b \<Rightarrow> Fulfilled ())
    \<and> convertedImage (snd (convertImage p st)) =
        (case encodeCanvas p (paintedCanvas p img) (targetFormat st) None of
           Inl cause \<Rightarrow> convertedImage st
         | Inr b \<Rightarrow> Some \<lparr>url = freshURL p (Suc (length (objectURLs st))),
                           format = targetFormat st\<rparr>)"
proof (cases "encodeCanvas p (paintedCanvas p img) (targetFormat st) None")
  case (Inl cause)
  then show ?thesis
    by (simp add: paintedCanvas_dims convertImage_encode_null [OF assms Inl])
next
  case (Inr b)
  then show ?thesis
    by (simp add: paintedCanvas_dims convertImage_encoded [OF assms Inr])
qed

theorem no_size_ceiling_witness:
  "selectedFile selected_state = Some png_file
   \<and> decodeImage (browser_showing huge_image) (file_blob png_file) = Inr huge_image
   \<and> canvasWidth (paintedCanvas (browser_showing huge_image) huge_image) = 100000
   \<and> canvasHeight (paintedCanvas (browser_showing huge_image) huge_image) = 100000
   \<and> fst (convertImage (browser_showing huge_image) selected_state) = Fulfilled ()"
proof -
  have h1: "selectedFile selected_state = Some png_file"
    by (simp add: selected_state_simps)
  have h2: "decodeImage (browser_showing huge_image) (file_blob png_file) = Inr huge_image"
    by (simp add: browser_showing_def browser_ok_def)
  from no_size_ceiling [OF h1 h2] h1 h2
  show ?thesis
    by (simp add: huge_image_def browser_showing_def browser_ok_def)
qed

text \<open>
  C3 as stated fails: an image of 100000 by 100000 pixels, which a browser decodes and
  encodes, is converted like any other; nothing is rejected and nothing is logged.
\<close>

theorem oversized_raster_rejected_counterexample:
  "imgWidth huge_image * imgHeight huge_image = 10000000000
   \<and> decodeImage (browser_showing huge_image) (file_blob png_file) = Inr huge_image
   \<and> fst (convertImage (browser_showing huge_image) selected_state) = Fulfilled ()
   \<and> convertedImage (snd (convertImage (browser_showing huge_image) selected_state))
       = Some \<lparr>url = ''blob:i'', format = image_png\<rparr>
   \<and> console (snd (convertImage (browser_showing huge_image) selected_state)) = []"
proof -
  have b: "imgWidth huge_image * imgHeight huge_image = 10000000000"
    by (simp add: huge_image_def)
  have c: "decodeImage (browser_showing huge_image) (file_blob png_file) = Inr huge_image"
    by (simp add: browser_showing_def browser_ok_def)
  from b c show ?thesis by (simp add: convertImage_showing selected_state_simps)
qed



text \<open>
  C6, as the code has it. \<open>convertImage\<close> gives the encoder no quality, for any target
  format: what the encoder would do with a quality has no effect on the conversion, and
  the quality in effect is the encoder's own choice when it is given none.
\<close>

theorem quality_never_supplied:
  assumes "\<And>c fmt. enc c fmt None = encodeCanvas p c fmt None"
  shows "convertImage (p\<lparr>encodeCanvas := enc\<rparr>) st = convertImage p st"
proof -
  let ?q = "p\<lparr>encodeCanvas := enc\<rparr>"
  have reg: "createObjectURL ?q b s = createObjectURL p b s" for b s
    by (simp add: createObjectURL_def)
  have load: "imageLoad ?q src s = imageLoad p src s" for src s
    by (simp add: imageLoad_def split: option.splits)
  have cv: "paintedCanvas ?q img = paintedCanvas p img" for img
    by (simp add: paintedCanvas_def)
  have blob: "toBlobPromise ?q c fmt = toBlobPromise p c fmt" for c fmt
    by (simp add: toBlobPromise_def assms)
  have "tryBlock ?q f fmt s = tryBlock p f fmt s" for f fmt s
    by (simp add: tryBlock_def reg load cv blob split: prod.splits promise.splits)
  then show ?thesis
    by (simp add: convertImage_def split: option.splits)
qed

theorem quality_never_supplied_witness:
  "(\<forall>c fmt. encodeCanvas browser_spy c fmt None
        = encodeCanvas
            (browser_spy\<lparr>encodeCanvas := (\<lambda>c fmt q. Inr \<lparr>blobType = mime fmt, blobBytes = []\<rparr>)\<rparr>)
            c fmt None)
   \<and> convertImage browser_spy jpeg_state
     = convertImage
         (browser_spy\<lparr>encodeCanvas := (\<lambda>c fmt q. Inr \<lparr>blobType = mime fmt, blobBytes = []\<rparr>)\<rparr>)
         jpeg_state"
proof -
  let ?p = "browser_spy\<lparr>encodeCanvas := (\<lambda>c fmt q. Inr \<lparr>blobType = mime fmt, blobBytes = []\<rparr>)\<rparr>"
  have h: "encodeCanvas browser_spy c fmt None = encodeCanvas ?p c fmt None" for c fmt
    by (simp add: browser_spy_def)
  have e: "?p\<lparr>encodeCanvas := encodeCanvas browser_spy\<rparr> = browser_spy"
    by simp
  from quality_never_supplied [of "encodeCanvas browser_spy" ?p jpeg_state, OF h] h e
  show ?thesis by simp
qed

text \<open>
  C6 as stated fails: with an encoder that writes the quality it receives into the blob,
  the blob of a JPEG conversion shows that none was received, where a quality of 0.92
  would have left 92.
\<close>

theorem quality_default_counterexample:
  "snd (hd (objectURLs (snd (convertImage browser_spy jpeg_state))))
     = \<lparr>blobType = ''image/jpeg'', blobBytes = []\<rparr>
   \<and> encodeCanvas browser_spy (paintedCanvas browser_spy white_image) image_jpeg (Some (92 / 100))
     = Inr \<lparr>blobType = ''image/jpeg'', blobBytes = [92]\<rparr>"
proof -
  have a: "convertImage browser_spy jpeg_state =
     (Fulfilled (),
      jpeg_state\<lparr>objectURLs := [(''blob:i'', \<lparr>blobType = ''image/jpeg'', blobBytes = []\<rparr>),
                                (''blob:'', file_blob png_file)],
         convertedImage := Some \<lparr>url = ''blob:i'', format = image_jpeg\<rparr>,
         isConverting := False\<rparr>)"
    using convertImage_encoded [of jpeg_state png_file browser_spy white_image
        "\<lparr>blobType = ''image/jpeg'', blobBytes = []\<rparr>"]
    by (simp add: jpeg_state_simps browser_spy_def browser_ok_def url_of_nat_def)
  have b: "encodeCanvas browser_spy (paintedCanvas browser_spy white_image) image_jpeg
      (Some (92 / 100)) = Inr \<lparr>blobType = ''image/jpeg'', blobBytes = [92]\<rparr>"
    by (simp add: browser_spy_def)
  from a b show ?thesis by simp
qed

text \<open>
  C7, at the input where the code departs from it. A file is converted to PNG and the
  target format is then set to JPEG: the result is still tagged PNG and its blob is
  still the PNG one, but the link now offers it under the name \<open>converted.jpeg\<close>.
\<close>

theorem download_name_after_reselection:
  "convertedImage (setTargetFormat image_jpeg (snd (convertImage browser_ok selected_state)))
     = Some \<lparr>url = ''blob:i'', format = image_png\<rparr>
   \<and> map_of (objectURLs (setTargetFormat image_jpeg (snd (convertImage browser_ok selected_state))))
        ''blob:i'' = Some \<lparr>blobType = ''image/png'', blobBytes = [1]\<rparr>
   \<and> downloadName (setTargetFormat image_jpeg (snd (convertImage browser_ok selected_state)))
     = Some ''converted.jpeg''"
proof -
  have a: "convertImage browser_ok selected_state =
     (Fulfilled (),
      selected_state\<lparr>objectURLs := [(''blob:i'', \<lparr>blobType = ''image/png'', blobBytes = [1]\<rparr>),
                                     (''blob:'', file_blob png_file)],
         convertedImage := Some \<lparr>url = ''blob:i'', format = image_png\<rparr>,
         isConverting := False\<rparr>)"
    using convertImage_encoded [of selected_state png_file browser_ok white_image
        "\<lparr>blobType = ''image/png'', blobBytes = [1]\<rparr>"]
    by (simp add: selected_state_simps browser_ok_def url_of_nat_def)
  show ?thesis
    by (simp add: a setTargetFormat_def downloadName_def interpolate_at_def)
qed

section \<open>Input\<close>

lemma acceptAttr_dropzoneOptions:
  "acceptAttr dropzoneOptions =
     [''image/*'', ''.png'', ''.jpg'', ''.jpeg'', ''.gif'', ''.bmp'', ''.webp'']"
  by (simp add: acceptAttr_def dropzoneOptions_def)

lemma toLowerCase_patterns:
  "toLowerCase ''image/*'' = ''image/*''"
  "toLowerCase ''.png'' = ''.png''"
  "toLowerCase ''.jpg'' = ''.jpg''"
  "toLowerCase ''.jpeg'' = ''.jpeg''"
  "toLowerCase ''.gif'' = ''.gif''"
  "toLowerCase ''.bmp'' = ''.bmp''"
  "toLowerCase ''.webp'' = ''.webp''"
  by (simp_all add: toLowerCase_def)

text \<open>
  C8, as the code has it. The drop zone is configured with the type pattern \<open>image/*\<close>
  and the six extensions \<open>.png\<close>, \<open>.jpg\<close>, \<open>.jpeg\<close>, \<open>.gif\<close>, \<open>.bmp\<close> and \<open>.webp\<close>: a file
  is accepted exactly when its type is an image type or its name ends, in any case of
  letters, with one of the six extensions (or it has the type \<open>application/x-moz-file\<close>).
  The drop zone takes no multiple files, and of the files it hands over \<open>onDrop\<close>
  selects one, the first, and leaves the selection as it was when there is none.
\<close>

theorem accepted_files_and_single_selection:
  "fileAccepted dropzoneOptions f =
     (fileType f = ''application/x-moz-file''
      \<or> baseType (toLowerCase (fileType f)) = ''image''
      \<or> endsWith (toLowerCase (fileName f)) ''.png''
      \<or> endsWith (toLowerCase (fileName f)) ''.jpg''
      \<or> endsWith (toLowerCase (fileName f)) ''.jpeg''
      \<or> endsWith (toLowerCase (fileName f)) ''.gif''
      \<or> endsWith (toLowerCase (fileName f)) ''.bmp''
      \<or> endsWith (toLowerCase (fileName f)) ''.webp'')
   \<and> multiple dropzoneOptions = False
   \<and> selectedFile (onDrop acceptedFiles st)
     = (case acceptedFiles of [] \<Rightarrow> selectedFile st | g # rest \<Rightarrow> Some g)"
proof -
  have sl: "endsWith ''image/*'' ''/*''" and bt: "baseType ''image/*'' = ''image''"
    by (simp_all add: endsWith_def baseType_def)
  have acc: "fileAccepted dropzoneOptions f =
     (fileType f = ''application/x-moz-file''
      \<or> baseType (toLowerCase (fileType f)) = ''image''
      \<or> endsWith (toLowerCase (fileName f)) ''.png''
      \<or> endsWith (toLowerCase (fileName f)) ''.jpg''
      \<or> endsWith (toLowerCase (fileName f)) ''.jpeg''
      \<or> endsWith (toLowerCase (fileName f)) ''.gif''
      \<or> endsWith (toLowerCase (fileName f)) ''.bmp''
      \<or> endsWith (toLowerCase (fileName f)) ''.webp'')"
    by (simp add: fileAccepted_def accepts_def acceptAttr_dropzoneOptions toLowerCase_patterns
        sl bt Let_def)
  have mult: "multiple dropzoneOptions = False"
    by (simp add: dropzoneOptions_def)
  have sel: "selectedFile (onDrop acceptedFiles st)
     = (case acceptedFiles of [] \<Rightarrow> selectedFile st | g # rest \<Rightarrow> Some g)"
    by (cases acceptedFiles) (simp_all add: onDrop_def)
  from acc mult sel show ?thesis by simp
qed

text \<open>
  C8 as stated fails: a file named \<open>a.svg\<close> of type \<open>image/svg+xml\<close> has none of the six
  extensions, and the drop zone accepts it and \<open>onDrop\<close> selects it.
\<close>

theorem only_six_extensions_accepted_counterexample:
  "fileAccepted dropzoneOptions svg_file
   \<and> fileName svg_file = ''a.svg''
   \<and> \<not> list_ex (endsWith (toLowerCase (fileName svg_file)))
         [''.png'', ''.jpg'', ''.jpeg'', ''.gif'', ''.bmp'', ''.webp'']
   \<and> selectedFile (onDrop [svg_file] initial_state) = Some svg_file"
  by (simp add: fileAccepted_def accepts_def acceptAttr_dropzoneOptions toLowerCase_patterns
      Let_def endsWith_def baseType_def svg_file_def toLowerCase_def onDrop_def)

end
